theory Spec2Isabelle
  imports Complex_Main "HOL-Library.Word" "HOL-Library.Sublist"
begin

unbundle bit_operations_syntax

section \<open>Machine types\<close>

text \<open>
  The code is Windows-only (LLP64): \<open>int\<close> is a signed 32-bit integer, \<open>unsigned long\<close>
  and \<open>DWORD\<close> are unsigned 32-bit integers. All three are 32-bit words; an \<open>int\<close> is
  read with \<open>sint\<close>, the unsigned types with \<open>unat\<close>. A conversion between \<open>int\<close> and
  an unsigned 32-bit type keeps the bit pattern, so it is the identity on the word.
\<close>

type_synonym c_int = "32 word"
type_synonym c_ulong = "32 word"
type_synonym DWORD = "32 word"

text \<open>
  A \<open>float\<close> or \<open>double\<close> is modelled by the value it denotes. Every \<open>float\<close> value is
  also a \<open>double\<close> value, so the implicit widening in \<open>result.averageFPS = testResults->fps\<close>
  is the identity on this type. No floating-point arithmetic occurs in the code.
\<close>

datatype fp_value = Fp_finite real | Fp_inf bool | Fp_nan

text \<open>Handles and function addresses handed out by the operating system; null is \<open>None\<close>.\<close>

type_synonym HMODULE = nat
type_synonym FARPROC = nat

section \<open>oevSDK.h\<close>

datatype gvRenderingTestResult =
  GvRenderingTestResult
    (structSize: c_int)
    (index: c_int)
    (duration: c_int)
    (fps: fp_value)
    (result: "string option")
    (next_ptr: "gvRenderingTestResult option")

definition WGLDIAG_OPTION_FOG :: c_ulong where
  "WGLDIAG_OPTION_FOG = push_bit 5 1"

definition WGLDIAG_OPTION_CLIP_PLANE :: c_ulong where
  "WGLDIAG_OPTION_CLIP_PLANE = push_bit 10 1"

definition WGLDIAG_OPTION_FS :: c_ulong where
  "WGLDIAG_OPTION_FS = push_bit 11 1"

definition WGLDIAG_OPTION_VSYNC :: c_ulong where
  "WGLDIAG_OPTION_VSYNC = push_bit 12 1"

definition WGLDIAG_OPTION_TRANSPARENCY :: c_ulong where
  "WGLDIAG_OPTION_TRANSPARENCY = push_bit 13 1"

definition WGLDIAG_OPTION_DEBUG :: c_ulong where
  "WGLDIAG_OPTION_DEBUG = push_bit 20 1"

section \<open>RenderingTester.h\<close>

text \<open>
  The four enumerations are \<open>enum class\<close> types: each is a type of its own whose
  underlying type is \<open>int\<close>, and each can hold every \<open>int\<close> value, also one that is no
  enumerator (\<open>static_cast<RendererType>(99)\<close>). So an enumeration is a wrapper around
  its underlying value: \<open>RendererType_of_int\<close> is \<open>static_cast<RendererType>\<close> and
  \<open>RendererType_int\<close> is \<open>static_cast<int>\<close>. The enumerators are the values 0, 1, 2
  and so on, in the order of the declaration.
\<close>

datatype RendererType = RendererType_of_int (RendererType_int: c_int)

definition GDI :: RendererType where
  "GDI = RendererType_of_int 0"

definition OpenGL_2_0 :: RendererType where
  "OpenGL_2_0 = RendererType_of_int 1"

definition OpenGL_3_0 :: RendererType where
  "OpenGL_3_0 = RendererType_of_int 2"

definition OpenGL_3_1 :: RendererType where
  "OpenGL_3_1 = RendererType_of_int 3"

definition OpenGL_3_2 :: RendererType where
  "OpenGL_3_2 = RendererType_of_int 4"

definition OpenGL_3_3 :: RendererType where
  "OpenGL_3_3 = RendererType_of_int 5"

definition OpenGL_4_0 :: RendererType where
  "OpenGL_4_0 = RendererType_of_int 6"

definition OpenGL_4_1 :: RendererType where
  "OpenGL_4_1 = RendererType_of_int 7"

definition OpenGL_4_2 :: RendererType where
  "OpenGL_4_2 = RendererType_of_int 8"

definition OpenGL_4_3 :: RendererType where
  "OpenGL_4_3 = RendererType_of_int 9"

definition OpenGL_4_4 :: RendererType where
  "OpenGL_4_4 = RendererType_of_int 10"

definition OpenGL_4_5 :: RendererType where
  "OpenGL_4_5 = RendererType_of_int 11"

definition OpenGL_4_6 :: RendererType where
  "OpenGL_4_6 = RendererType_of_int 12"

definition Vulkan_1_0 :: RendererType where
  "Vulkan_1_0 = RendererType_of_int 13"

definition Vulkan_1_1 :: RendererType where
  "Vulkan_1_1 = RendererType_of_int 14"

definition Vulkan_1_2 :: RendererType where
  "Vulkan_1_2 = RendererType_of_int 15"

lemmas RendererType_enumerators =
  GDI_def OpenGL_2_0_def OpenGL_3_0_def OpenGL_3_1_def OpenGL_3_2_def OpenGL_3_3_def OpenGL_4_0_def OpenGL_4_1_def OpenGL_4_2_def OpenGL_4_3_def OpenGL_4_4_def OpenGL_4_5_def OpenGL_4_6_def Vulkan_1_0_def Vulkan_1_1_def Vulkan_1_2_def

datatype SceneType = SceneType_of_int (SceneType_int: c_int)

definition SingleCube :: SceneType where
  "SingleCube = SceneType_of_int 0"

definition ManyCubes :: SceneType where
  "ManyCubes = SceneType_of_int 1"

definition Character :: SceneType where
  "Character = SceneType_of_int 2"

definition ManyCharacters :: SceneType where
  "ManyCharacters = SceneType_of_int 3"

definition Raytracing :: SceneType where
  "Raytracing = SceneType_of_int 4"

lemmas SceneType_enumerators =
  SingleCube_def ManyCubes_def Character_def ManyCharacters_def Raytracing_def

datatype FramebufferFormat = FramebufferFormat_of_int (FramebufferFormat_int: c_int)

definition RGB_Linear :: FramebufferFormat where
  "RGB_Linear = FramebufferFormat_of_int 0"

definition sRGB :: FramebufferFormat where
  "sRGB = FramebufferFormat_of_int 1"

definition HDR :: FramebufferFormat where
  "HDR = FramebufferFormat_of_int 2"

lemmas FramebufferFormat_enumerators =
  RGB_Linear_def sRGB_def HDR_def

datatype FramebufferType = FramebufferType_of_int (FramebufferType_int: c_int)

definition Default :: FramebufferType where
  "Default = FramebufferType_of_int 0"

definition PixelBuffer :: FramebufferType where
  "PixelBuffer = FramebufferType_of_int 1"

definition FramebufferObject :: FramebufferType where
  "FramebufferObject = FramebufferType_of_int 2"

lemmas FramebufferType_enumerators =
  Default_def PixelBuffer_def FramebufferObject_def

record TestConfig =
  renderer :: RendererType
  fullscreen :: bool
  width :: c_int
  height :: c_int
  vsync :: bool
  fog :: bool
  transparency :: bool
  userClipPlane :: bool
  multisampleCount :: c_int
  maxAnisotropy :: c_int
  textureLOD :: c_int
  fbFormat :: FramebufferFormat
  fbType :: FramebufferType
  scene :: SceneType
  testDurationSeconds :: c_int
  enableDebugOutput :: bool
  pixelFormat :: c_int

text \<open>The default member initialisers of \<open>TestConfig\<close>.\<close>

definition TestConfig_default :: TestConfig where
  "TestConfig_default =
     \<lparr> renderer = OpenGL_4_6, fullscreen = False, width = 1920, height = 1080,
       vsync = False, fog = False, transparency = False, userClipPlane = False,
       multisampleCount = 0, maxAnisotropy = 0, textureLOD = 0,
       fbFormat = RGB_Linear, fbType = Default, scene = SingleCube,
       testDurationSeconds = 10, enableDebugOutput = False, pixelFormat = 1 \<rparr>"

record TestResult =
  testIndex :: c_int
  passed :: bool
  averageFPS :: fp_value
  errorMessage :: string

text \<open>The constructor \<open>TestResult()\<close>.\<close>

definition TestResult_new :: TestResult where
  "TestResult_new =
     \<lparr> testIndex = 0, passed = False, averageFPS = Fp_finite 0, errorMessage = [] \<rparr>"

section \<open>The environment: Windows, the C runtime and the loaded library\<close>

text \<open>
  Everything the code calls but does not define is a field of the environment. \<open>'x\<close> is
  the state of the outside world (the operating system, the console, the library's own
  state); every call that can have an effect takes and returns it.

  \<open>WGLDIAG_OPTIONS_FS_EX\<close> is used by the code but the header in the repository does not
  define it, so its value is a parameter.

  \<open>display_modes\<close> is the list of graphics modes that \<open>EnumDisplaySettings\<close> enumerates:
  the call with index \<open>n\<close> succeeds exactly for the indices of the list. Of \<open>DEVMODE\<close>
  only the two fields the code reads are kept.

  A log call passes a format and its arguments to \<open>vsnprintf\<close>, which belongs to the C
  runtime.
\<close>

record DEVMODE =
  dmPelsWidth :: DWORD
  dmPelsHeight :: DWORD

datatype log_arg = Arg_string string | Arg_int c_int | Arg_double fp_value

record 'x env =
  WGLDIAG_OPTIONS_FS_EX :: c_ulong
  display_modes :: "'x \<Rightarrow> DEVMODE list"
  LoadLibraryA :: "string \<Rightarrow> 'x \<Rightarrow> HMODULE option \<times> 'x"
  GetProcAddress :: "HMODULE \<Rightarrow> string \<Rightarrow> 'x \<Rightarrow> FARPROC option"
  call_oevInitWad :: "FARPROC \<Rightarrow> string \<Rightarrow> 'x \<Rightarrow> c_int \<times> 'x"
  call_oevRunRenderingTests :: "FARPROC \<Rightarrow> string \<Rightarrow> 'x \<Rightarrow> gvRenderingTestResult option \<times> 'x"
  vsnprintf :: "nat \<Rightarrow> string \<Rightarrow> log_arg list \<Rightarrow> string"
  OutputDebugStringA :: "string \<Rightarrow> 'x \<Rightarrow> 'x"
  cout :: "string \<Rightarrow> 'x \<Rightarrow> 'x"
  IsWindows8OrGreater :: "'x \<Rightarrow> bool"
  IsWindows10OrGreater :: "'x \<Rightarrow> bool"
  SetProcessDpiAwarenessContext :: "'x \<Rightarrow> 'x"
  SetProcessDpiAwareness :: "'x \<Rightarrow> 'x"

definition EnumDisplaySettings :: "DEVMODE list \<Rightarrow> nat \<Rightarrow> DEVMODE option" where
  "EnumDisplaySettings modes iModeNum =
     (if iModeNum < length modes then Some (modes ! iModeNum) else None)"

section \<open>Logger\<close>

definition LogMessage :: "'x env \<Rightarrow> string \<Rightarrow> string \<Rightarrow> log_arg list \<Rightarrow> 'x \<Rightarrow> 'x" where
  "LogMessage e prefix' format args w =
     (let buffer = vsnprintf e 4096 format args;
          w = OutputDebugStringA e prefix' w;
          w = OutputDebugStringA e buffer w;
          w = OutputDebugStringA e ''\<newline>'' w
      in cout e (prefix' @ buffer @ ''\<newline>'') w)"

definition Logger_Info :: "'x env \<Rightarrow> string \<Rightarrow> log_arg list \<Rightarrow> 'x \<Rightarrow> 'x" where
  "Logger_Info e format args w = LogMessage e ''[INFO] '' format args w"

definition Logger_Error :: "'x env \<Rightarrow> string \<Rightarrow> log_arg list \<Rightarrow> 'x \<Rightarrow> 'x" where
  "Logger_Error e format args w = LogMessage e ''[ERROR] '' format args w"

section \<open>Serialising a configuration\<close>

text \<open>
  \<open>std::to_string(int)\<close>: the decimal digits of the value, with a leading minus sign for
  a negative one.
\<close>

definition digit_char :: "nat \<Rightarrow> char" where
  "digit_char d = ''0123456789'' ! d"

fun decimal_digits :: "nat \<Rightarrow> string" where
  "decimal_digits n =
     (if n < 10 then [digit_char n] else decimal_digits (n div 10) @ [digit_char (n mod 10)])"

declare decimal_digits.simps [simp del]

definition to_string :: "c_int \<Rightarrow> string" where
  "to_string v =
     (if sint v < 0 then CHR ''-'' # decimal_digits (nat (- sint v))
      else decimal_digits (nat (sint v)))"

definition CreateXMLElement :: "string \<Rightarrow> string \<Rightarrow> string" where
  "CreateXMLElement name val = ''<'' @ name @ ''>'' @ val @ ''</'' @ name @ ''>\<newline>''"

text \<open>
  The three \<open>switch\<close> statements: one \<open>case\<close> per enumerator, in the order of the
  source, and the \<open>default\<close> branch for every other value.
\<close>

definition GetTestVersionString :: "RendererType \<Rightarrow> string" where
  "GetTestVersionString renderer' =
     (if renderer' = GDI then ''2.0''
      else if renderer' = OpenGL_2_0 then ''2.0''
      else if renderer' = OpenGL_3_0 then ''3.0''
      else if renderer' = OpenGL_3_1 then ''3.1''
      else if renderer' = OpenGL_3_2 then ''3.2''
      else if renderer' = OpenGL_3_3 then ''3.3''
      else if renderer' = OpenGL_4_0 then ''4.0''
      else if renderer' = OpenGL_4_1 then ''4.1''
      else if renderer' = OpenGL_4_2 then ''4.2''
      else if renderer' = OpenGL_4_3 then ''4.3''
      else if renderer' = OpenGL_4_4 then ''4.4''
      else if renderer' = OpenGL_4_5 then ''4.5''
      else if renderer' = OpenGL_4_6 then ''4.6''
      else if renderer' = Vulkan_1_0 then ''1.0''
      else if renderer' = Vulkan_1_1 then ''1.0''
      else if renderer' = Vulkan_1_2 then ''1.0''
      else ''4.6'')"

definition FramebufferFormatToString :: "FramebufferFormat \<Rightarrow> string" where
  "FramebufferFormatToString format =
     (if format = RGB_Linear then ''Linear''
      else if format = sRGB then ''sRGB''
      else if format = HDR then ''HDR''
      else ''Linear'')"

definition FramebufferTypeToString :: "FramebufferType \<Rightarrow> string" where
  "FramebufferTypeToString type' =
     (if type' = Default then ''Default''
      else if type' = PixelBuffer then ''PixelBuffer''
      else if type' = FramebufferObject then ''FrameBufferObject''
      else ''Default'')"

text \<open>
  \<open>Utils::FindDisplayMode\<close>. The loop counter is an \<open>int\<close> in the source; it stays below
  the number of display modes, which is taken to be below \<open>2^31\<close>. The comparison casts
  the \<open>DWORD\<close> fields to \<open>int\<close>, which keeps their bits.
\<close>

function FindDisplayMode_while :: "DEVMODE list \<Rightarrow> c_int \<Rightarrow> c_int \<Rightarrow> nat \<Rightarrow> c_int" where
  "FindDisplayMode_while modes width' height' modeIndex =
     (case EnumDisplaySettings modes modeIndex of
        Some displayMode \<Rightarrow>
          if width' = dmPelsWidth displayMode \<and> height' = dmPelsHeight displayMode
          then of_nat modeIndex
          else FindDisplayMode_while modes width' height' (modeIndex + 1)
      | None \<Rightarrow> - 1)"
  by pat_completeness auto
termination
  by (relation "measure (\<lambda>(modes, width', height', modeIndex). length modes - modeIndex)")
     (auto simp: EnumDisplaySettings_def split: if_splits)

declare FindDisplayMode_while.simps [simp del]

definition FindDisplayMode :: "DEVMODE list \<Rightarrow> c_int \<Rightarrow> c_int \<Rightarrow> c_int" where
  "FindDisplayMode modes width' height' = FindDisplayMode_while modes width' height' 0"

text \<open>
  \<open>options |= bits\<close> with \<open>options\<close> an \<open>int\<close> and \<open>bits\<close> an \<open>unsigned long\<close>: the
  \<open>int\<close> is converted to \<open>unsigned long\<close>, the bits are combined, and the result is
  converted back.
\<close>

definition or_assign :: "c_int \<Rightarrow> c_ulong \<Rightarrow> c_int" where
  "or_assign options bits = options OR bits"

text \<open>The block "Build options bitmask" of \<open>BuildXMLConfiguration\<close>.\<close>

definition BuildXMLConfiguration_options :: "'x env \<Rightarrow> TestConfig \<Rightarrow> c_int" where
  "BuildXMLConfiguration_options e config =
     (let options = 0;
          options = (if fullscreen config
                     then or_assign options (WGLDIAG_OPTION_FS OR WGLDIAG_OPTIONS_FS_EX e)
                     else options);
          options = (if enableDebugOutput config then or_assign options WGLDIAG_OPTION_DEBUG
                     else options);
          options = (if vsync config then or_assign options WGLDIAG_OPTION_VSYNC else options);
          options = (if fog config then or_assign options WGLDIAG_OPTION_FOG else options);
          options = (if transparency config then or_assign options WGLDIAG_OPTION_TRANSPARENCY
                     else options);
          options = (if userClipPlane config then or_assign options WGLDIAG_OPTION_CLIP_PLANE
                     else options)
      in options)"

definition BuildXMLConfiguration :: "'x env \<Rightarrow> 'x \<Rightarrow> TestConfig \<Rightarrow> string" where
  "BuildXMLConfiguration e w config =
     (let options = BuildXMLConfiguration_options e config;
          rendererValue = RendererType_int (renderer config);
          sceneValue = to_string (SceneType_int (scene config));
          fbFormatStr = FramebufferFormatToString (fbFormat config);
          fbTypeStr = FramebufferTypeToString (fbType config);
          testVersion = GetTestVersionString (renderer config);
          xml = [];
          xml = xml @ CreateXMLElement ''option'' (to_string options);
          xml = xml @ CreateXMLElement ''duration'' (to_string (testDurationSeconds config));
          xml = xml @ CreateXMLElement ''multisample'' (to_string (multisampleCount config));
          xml = xml @ CreateXMLElement ''anisotropy'' (to_string (maxAnisotropy config));
          xml = xml @ CreateXMLElement ''texturelod'' (to_string (textureLOD config));
          xml = xml @ CreateXMLElement ''displaymode''
                  (to_string (FindDisplayMode (display_modes e w) (width config) (height config)));
          xml = xml @ CreateXMLElement ''renderer'' (to_string rendererValue);
          xml = xml @ CreateXMLElement ''pixelformat'' (to_string (pixelFormat config));
          xml = xml @ CreateXMLElement ''test'' testVersion;
          xml = xml @ CreateXMLElement ''fbenable'' fbTypeStr;
          xml = xml @ CreateXMLElement ''fbformat'' fbFormatStr;
          xml = xml @ CreateXMLElement ''scene'' sceneValue;
          xml = xml @ CreateXMLElement ''width'' (to_string (width config));
          xml = xml @ CreateXMLElement ''height'' (to_string (height config))
      in CreateXMLElement ''root'' xml)"

section \<open>The tester\<close>

text \<open>
  \<open>RenderingTester::Impl\<close> and \<open>RenderingTester\<close>. The tester owns its \<open>Impl\<close> through a
  \<open>unique_ptr\<close> that is never reseated, so the \<open>Impl\<close> is a field of the tester.
\<close>

record Impl =
  hLibrary :: "HMODULE option"
  funcInitWad :: "FARPROC option"
  funcReadCpuid :: "FARPROC option"
  funcRunRenderingTests :: "FARPROC option"

record RenderingTester =
  m_pImpl :: Impl
  m_dllPath :: string
  m_resourcePath :: string
  m_lastError :: string
  m_initialized :: bool

definition Impl_new :: Impl where
  "Impl_new = \<lparr> hLibrary = None, funcInitWad = None, funcReadCpuid = None,
                funcRunRenderingTests = None \<rparr>"

definition RenderingTester_new :: "string \<Rightarrow> string \<Rightarrow> RenderingTester" where
  "RenderingTester_new dllPath resourcePath =
     \<lparr> m_pImpl = Impl_new, m_dllPath = dllPath,
       m_resourcePath = (if resourcePath = [] then ''GLVIEW.RMX'' else resourcePath),
       m_lastError = [], m_initialized = False \<rparr>"

text \<open>Calling through a null function pointer does not return.\<close>

datatype fault = NullFunctionPointer

definition LoadDLL :: "'x env \<Rightarrow> string \<Rightarrow> Impl \<Rightarrow> 'x \<Rightarrow> bool \<times> Impl \<times> 'x" where
  "LoadDLL e dllPath impl w =
     (let fullPath = (if dllPath = [] then ''infogl.dll''
                      else dllPath @ [CHR 0x5C] @ ''infogl.dll'');
          (h, w) = LoadLibraryA e fullPath w;
          impl = impl\<lparr>hLibrary := h\<rparr>
      in case h of
           None \<Rightarrow> (False, impl, w)
         | Some lib \<Rightarrow>
             (let impl = impl\<lparr>funcInitWad := GetProcAddress e lib ''oevInitWad'' w\<rparr>;
                  impl = impl\<lparr>funcReadCpuid := GetProcAddress e lib ''oevReadCpuid'' w\<rparr>;
                  impl = impl\<lparr>funcRunRenderingTests :=
                                GetProcAddress e lib ''oevRunRenderingTests'' w\<rparr>
              in (funcInitWad impl \<noteq> None \<and> funcReadCpuid impl \<noteq> None
                    \<and> funcRunRenderingTests impl \<noteq> None,
                  impl, w)))"

text \<open>
  \<open>Utils::SetupDPIAwareness\<close>. The monitor and DPI queries only fill local variables
  that are never read.
\<close>

definition SetupDPIAwareness :: "'x env \<Rightarrow> 'x \<Rightarrow> 'x" where
  "SetupDPIAwareness e w =
     (if IsWindows8OrGreater e w
      then (if IsWindows10OrGreater e w then SetProcessDpiAwarenessContext e w
            else SetProcessDpiAwareness e w)
      else w)"

definition InitLibrary :: "'x env \<Rightarrow> RenderingTester \<times> 'x \<Rightarrow> bool \<times> RenderingTester \<times> 'x" where
  "InitLibrary e s =
     (case s of (t, w) \<Rightarrow>
        (case LoadDLL e (m_dllPath t) (m_pImpl t) w of
           (ok, impl, w) \<Rightarrow> (ok, t\<lparr>m_pImpl := impl\<rparr>, w)))"

definition SetLastError :: "'x env \<Rightarrow> string \<Rightarrow> RenderingTester \<times> 'x \<Rightarrow> RenderingTester \<times> 'x" where
  "SetLastError e error s =
     (case s of (t, w) \<Rightarrow>
        (t\<lparr>m_lastError := error\<rparr>, Logger_Error e ''%s'' [Arg_string error] w))"

definition GetLastError :: "RenderingTester \<Rightarrow> string" where
  "GetLastError t = m_lastError t"

definition IsInitialized :: "RenderingTester \<Rightarrow> bool" where
  "IsInitialized t = m_initialized t"

definition Initialize ::
  "'x env \<Rightarrow> RenderingTester \<times> 'x \<Rightarrow> fault + (bool \<times> RenderingTester \<times> 'x)" where
  "Initialize e s =
     (case s of (t, w) \<Rightarrow>
        if m_initialized t then Inr (True, t, w)
        else
          (let w = SetupDPIAwareness e w in
           case InitLibrary e (t, w) of (ok, t, w) \<Rightarrow>
             if \<not> ok then
               (case SetLastError e ''Failed to load infogl.dll or required functions'' (t, w) of
                  (t, w) \<Rightarrow> Inr (False, t, w))
             else
               (case funcInitWad (m_pImpl t) of
                  None \<Rightarrow> Inl NullFunctionPointer
                | Some f \<Rightarrow>
                    (case call_oevInitWad e f (m_resourcePath t) w of (rc, w) \<Rightarrow>
                       if sint rc < 0 then
                         (case SetLastError e
                                 (''Failed to initialize resource package: '' @ m_resourcePath t)
                                 (t, w) of
                            (t, w) \<Rightarrow> Inr (False, t, w))
                       else
                         (let t = t\<lparr>m_initialized := True\<rparr>;
                              w = Logger_Info e ''RenderingTester initialized successfully'' [] w
                          in Inr (True, t, w))))))"

text \<open>
  \<open>RunSingleTest\<close> from "Build XML configuration" to its end: what runs once the tester
  is initialized. \<open>res\<close> is the local \<open>result\<close>.
\<close>

definition RunSingleTest_run ::
  "'x env \<Rightarrow> TestConfig \<Rightarrow> TestResult \<Rightarrow> RenderingTester \<times> 'x
     \<Rightarrow> fault + (TestResult \<times> RenderingTester \<times> 'x)" where
  "RunSingleTest_run e config res s =
     (case s of (t, w) \<Rightarrow>
        (let xmlConfig = BuildXMLConfiguration e w config;
             w = Logger_Info e ''Running test with config: %s'' [Arg_string xmlConfig] w
         in case funcRunRenderingTests (m_pImpl t) of
              None \<Rightarrow> Inl NullFunctionPointer
            | Some f \<Rightarrow>
                (case call_oevRunRenderingTests e f xmlConfig w of (testResults, w) \<Rightarrow>
                   (let no_results =
                          (let res = res\<lparr>errorMessage := ''No test results returned''\<rparr>;
                               w = Logger_Error e ''Test execution failed - no results returned'' [] w
                           in Inr (res, t, w))
                    in case testResults of
                         None \<Rightarrow> no_results
                       | Some r \<Rightarrow>
                           (case result r of
                              None \<Rightarrow> no_results
                            | Some status \<Rightarrow>
                                if status = ''OK'' then
                                  (let res = res\<lparr>passed := True\<rparr>;
                                       res = res\<lparr>averageFPS := fps r\<rparr>;
                                       res = res\<lparr>testIndex := index r\<rparr>;
                                       w = Logger_Info e ''Test %d passed with %.2f FPS''
                                             [Arg_int (testIndex res), Arg_double (averageFPS res)] w
                                   in Inr (res, t, w))
                                else
                                  (let res = res\<lparr>passed := False\<rparr>;
                                       res = res\<lparr>errorMessage := status\<rparr>;
                                       res = res\<lparr>testIndex := index r\<rparr>;
                                       w = Logger_Error e ''Test %d failed: %s''
                                             [Arg_int (testIndex res), Arg_string (errorMessage res)] w
                                   in Inr (res, t, w)))))))"

definition RunSingleTest ::
  "'x env \<Rightarrow> TestConfig \<Rightarrow> RenderingTester \<times> 'x
     \<Rightarrow> fault + (TestResult \<times> RenderingTester \<times> 'x)" where
  "RunSingleTest e config s =
     (case s of (t, w) \<Rightarrow>
        (let res = TestResult_new in
         if \<not> m_initialized t then
           (case Initialize e (t, w) of
              Inl f \<Rightarrow> Inl f
            | Inr (ok, t, w) \<Rightarrow>
                if \<not> ok then Inr (res\<lparr>errorMessage := GetLastError t\<rparr>, t, w)
                else RunSingleTest_run e config res (t, w))
         else RunSingleTest_run e config res (t, w)))"

text \<open>
  \<open>RunMultipleTests\<close>. A progress callback is a function object: it gets the two counts
  (each a \<open>size_t\<close> cast to \<open>int\<close>) and the result, and acts on a state \<open>'u\<close> of its own.
  It is taken to return normally and to leave the tester alone. A null callback is
  \<open>None\<close>.
\<close>

type_synonym 'u ProgressCallback = "c_int \<Rightarrow> c_int \<Rightarrow> TestResult \<Rightarrow> 'u \<Rightarrow> 'u"

function RunMultipleTests_for ::
  "'x env \<Rightarrow> TestConfig list \<Rightarrow> 'u ProgressCallback option \<Rightarrow> nat \<Rightarrow> TestResult list
     \<Rightarrow> (RenderingTester \<times> 'x) \<Rightarrow> 'u
     \<Rightarrow> fault + (TestResult list \<times> (RenderingTester \<times> 'x) \<times> 'u)" where
  "RunMultipleTests_for e configs progressCallback i results s u =
     (if i < length configs then
        (case RunSingleTest e (configs ! i) s of
           Inl f \<Rightarrow> Inl f
         | Inr (res, s) \<Rightarrow>
             (let results = results @ [res];
                  u = (case progressCallback of
                         Some callback \<Rightarrow> callback (of_nat (i + 1)) (of_nat (length configs)) res u
                       | None \<Rightarrow> u)
              in RunMultipleTests_for e configs progressCallback (i + 1) results s u))
      else Inr (results, s, u))"
  by pat_completeness auto
termination
  by (relation "measure (\<lambda>(e, configs, progressCallback, i, results, s, u). length configs - i)")
     auto

declare RunMultipleTests_for.simps [simp del]

definition RunMultipleTests ::
  "'x env \<Rightarrow> TestConfig list \<Rightarrow> 'u ProgressCallback option \<Rightarrow> (RenderingTester \<times> 'x) \<Rightarrow> 'u
     \<Rightarrow> fault + (TestResult list \<times> (RenderingTester \<times> 'x) \<times> 'u)" where
  "RunMultipleTests e configs progressCallback s u =
     RunMultipleTests_for e configs progressCallback 0 [] s u"

text \<open>\<open>RenderingTester::CreateDefaultConfig\<close>.\<close>

definition CreateDefaultConfig :: TestConfig where
  "CreateDefaultConfig =
     (let config = TestConfig_default;
          config = config\<lparr>renderer := OpenGL_4_6\<rparr>;
          config = config\<lparr>width := 1920\<rparr>;
          config = config\<lparr>height := 1080\<rparr>;
          config = config\<lparr>scene := SingleCube\<rparr>;
          config = config\<lparr>testDurationSeconds := 5\<rparr>
      in config)"

section \<open>oevTest.cpp\<close>

text \<open>
  \<open>GetDisplayMode\<close> of the older program. The inner \<open>while\<close> either returns an index
  (\<open>Inl\<close>) or runs out of display modes and falls out of the loop with its counter
  (\<open>Inr\<close>). The outer \<open>for (;;)\<close> has no exit of its own: it runs the \<open>while\<close> again with
  the counter it was left with. \<open>None\<close> is the function not returning. The display
  modes do not change while the function runs. The counter \<open>n\<close> is an \<open>int\<close> that stays
  below the number of display modes (taken to be below \<open>2^31\<close>); the returned \<open>int\<close> is
  given by its value. The comparison converts the \<open>int\<close> arguments to \<open>DWORD\<close>, which
  keeps their bits.
\<close>

function GetDisplayMode_while :: "DEVMODE list \<Rightarrow> c_int \<Rightarrow> c_int \<Rightarrow> nat \<Rightarrow> int + nat" where
  "GetDisplayMode_while modes width' height' n =
     (case EnumDisplaySettings modes n of
        Some devmode \<Rightarrow>
          if width' = dmPelsWidth devmode \<and> height' = dmPelsHeight devmode
          then Inl (int n)
          else GetDisplayMode_while modes width' height' (n + 1)
      | None \<Rightarrow> Inr n)"
  by pat_completeness auto
termination
  by (relation "measure (\<lambda>(modes, width', height', n). length modes - n)")
     (auto simp: EnumDisplaySettings_def split: if_splits)

declare GetDisplayMode_while.simps [simp del]

partial_function (option) GetDisplayMode_for ::
  "DEVMODE list \<Rightarrow> c_int \<Rightarrow> c_int \<Rightarrow> nat \<Rightarrow> int option" where
  "GetDisplayMode_for modes width' height' n =
     (case GetDisplayMode_while modes width' height' n of
        Inl found \<Rightarrow> Some found
      | Inr n \<Rightarrow> GetDisplayMode_for modes width' height' n)"

definition GetDisplayMode :: "DEVMODE list \<Rightarrow> c_int \<Rightarrow> c_int \<Rightarrow> int option" where
  "GetDisplayMode modes width' height' = GetDisplayMode_for modes width' height' 0"

section \<open>Reachable tester states and a stub environment\<close>

text \<open>
  The constructor leaves the tester uninitialized, and \<open>m_initialized\<close> is only ever set
  after \<open>LoadDLL\<close> has resolved all three entry points. So in every state a tester can
  be in, an initialized tester has a run-tests entry point.
\<close>

definition RenderingTester_invariant :: "RenderingTester \<Rightarrow> bool" where
  "RenderingTester_invariant t \<longleftrightarrow>
     (m_initialized t \<longrightarrow> funcRunRenderingTests (m_pImpl t) \<noteq> None)"





text \<open>The test both display-mode searches apply to an enumerated mode.\<close>

definition mode_matches :: "c_int \<Rightarrow> c_int \<Rightarrow> DEVMODE \<Rightarrow> bool" where
  "mode_matches w h m \<longleftrightarrow> w = dmPelsWidth m \<and> h = dmPelsHeight m"

text \<open>
  The tester and the world after \<open>RunSingleTest\<close> has been called on each configuration of
  a list in turn, starting from \<open>s\<close>.
\<close>

definition state_after ::
  "'x env \<Rightarrow> TestConfig list \<Rightarrow> RenderingTester \<times> 'x \<Rightarrow> RenderingTester \<times> 'x" where
  "state_after e configs s =
     foldl (\<lambda>s config. case RunSingleTest e config s of Inr (res, s') \<Rightarrow> s' | Inl f \<Rightarrow> s)
       s configs"

text \<open>
  A small concrete environment on which the theorems below are exercised. Its world
  state counts the calls of the run-tests entry point so far. There are two display
  modes, 800 by 600 and 1920 by 1080. The library is found only
  under the name \<open>infogl.dll\<close> and exports the names in \<open>exports\<close>; the resource package
  is answered with \<open>wad_status\<close>; the \<open>k\<close>-th call of the run-tests entry point returns
  the \<open>k\<close>-th record of \<open>outcomes\<close>, and null once they are used up.
\<close>

definition stub_modes :: "DEVMODE list" where
  "stub_modes = [\<lparr>dmPelsWidth = 800, dmPelsHeight = 600\<rparr>,
                 \<lparr>dmPelsWidth = 1920, dmPelsHeight = 1080\<rparr>]"

definition stub_env :: "string list \<Rightarrow> c_int \<Rightarrow> gvRenderingTestResult option list \<Rightarrow> nat env" where
  "stub_env exports wad_status outcomes =
     \<lparr> WGLDIAG_OPTIONS_FS_EX = 0,
       display_modes = (\<lambda>w. stub_modes),
       LoadLibraryA = (\<lambda>path w. (if path = ''infogl.dll'' then Some 1 else None, w)),
       GetProcAddress = (\<lambda>lib name w. if name \<in> set exports then Some (length name) else None),
       call_oevInitWad = (\<lambda>f path w. (wad_status, w)),
       call_oevRunRenderingTests =
         (\<lambda>f xml w. (if w < length outcomes then outcomes ! w else None, Suc w)),
       vsnprintf = (\<lambda>size format args. format),
       OutputDebugStringA = (\<lambda>text w. w),
       cout = (\<lambda>text w. w),
       IsWindows8OrGreater = (\<lambda>w. True),
       IsWindows10OrGreater = (\<lambda>w. True),
       SetProcessDpiAwarenessContext = (\<lambda>w. w),
       SetProcessDpiAwareness = (\<lambda>w. w) \<rparr>"

definition stub_exports :: "string list" where
  "stub_exports = [''oevInitWad'', ''oevReadCpuid'', ''oevRunRenderingTests'']"

text \<open>The tester that \<open>Initialize\<close> produces from a fresh one in the stub environment.\<close>

definition stub_initialized :: RenderingTester where
  "stub_initialized =
     \<lparr> m_pImpl = \<lparr> hLibrary = Some 1, funcInitWad = Some 10, funcReadCpuid = Some 12,
                     funcRunRenderingTests = Some 20 \<rparr>,
       m_dllPath = [], m_resourcePath = ''GLVIEW.RMX'', m_lastError = [],
       m_initialized = True \<rparr>"

text \<open>Two records the stub library can answer with: a passed test and a failed one.\<close>

definition stub_passed :: gvRenderingTestResult where
  "stub_passed = GvRenderingTestResult 40 7 5 (Fp_finite 60) (Some ''OK'') None"

definition stub_failed :: gvRenderingTestResult where
  "stub_failed = GvRenderingTestResult 40 8 5 (Fp_finite 0) (Some ''Unsupported renderer'') None"

text \<open>A configuration with five of the six flags set.\<close>

definition stub_flags :: TestConfig where
  "stub_flags = TestConfig_default\<lparr>enableDebugOutput := True, vsync := True, fog := True,
     transparency := True, userClipPlane := True\<rparr>"


text \<open>A progress callback that appends what it is called with to a list.\<close>

definition stub_recorder :: "(int \<times> int \<times> bool) list ProgressCallback" where
  "stub_recorder testIndex' totalTests currentResult calls =
     calls @ [(sint testIndex', sint totalTests, passed currentResult)]"

section \<open>Library binding and initialization\<close>

lemma LoadDLL_cases:
  "LoadDLL e dllPath impl w = (ok, impl', w') \<Longrightarrow>
     ok = (funcInitWad impl' \<noteq> None \<and> funcReadCpuid impl' \<noteq> None
           \<and> funcRunRenderingTests impl' \<noteq> None \<and> hLibrary impl' \<noteq> None)"
  by (auto simp: LoadDLL_def Let_def split: prod.splits option.splits)

lemma Initialize_initialized: "m_initialized t \<Longrightarrow> Initialize e (t, w) = Inr (True, t, w)"
  by (simp add: Initialize_def)

text \<open>\<open>Initialize\<close> never calls through a null pointer.\<close>

lemma Initialize_total: "\<exists>ok t' w'. Initialize e (t, w) = Inr (ok, t', w')"
  by (auto simp: Initialize_def InitLibrary_def SetLastError_def Let_def
      dest: LoadDLL_cases split: prod.splits option.splits)

lemma Initialize_result:
  "Initialize e (t, w) = Inr (ok, t', w') \<Longrightarrow> \<not> m_initialized t \<Longrightarrow>
     m_initialized t' = ok
     \<and> (ok \<longrightarrow> funcRunRenderingTests (m_pImpl t') \<noteq> None \<and> m_lastError t' = m_lastError t)"
  by (auto simp: Initialize_def InitLibrary_def SetLastError_def Let_def
      dest: LoadDLL_cases split: prod.splits option.splits if_splits)

lemma stub_Initialize:
  "Initialize (stub_env stub_exports 0 rs) (RenderingTester_new [] [], 0)
   = Inr (True, stub_initialized, 0)"
  by (simp add: Initialize_def InitLibrary_def LoadDLL_def SetupDPIAwareness_def stub_env_def
      RenderingTester_new_def Impl_new_def Logger_Info_def LogMessage_def Let_def
      stub_exports_def stub_initialized_def)

text \<open>
  C6. \<open>LoadDLL\<close> returns true exactly when \<open>LoadLibraryA\<close> finds the library and
  \<open>GetProcAddress\<close> resolves each of \<open>oevInitWad\<close>, \<open>oevReadCpuid\<close> and
  \<open>oevRunRenderingTests\<close>. When it returns false on a tester that is not yet initialized,
  \<open>Initialize\<close> returns false, the last error is the load-failure message, and the tester
  stays uninitialized.
\<close>

theorem LoadDLL_binding:
  "(fst (LoadDLL e dllPath impl w) \<longleftrightarrow>
      (case LoadLibraryA e (if dllPath = [] then ''infogl.dll''
                            else dllPath @ [CHR 0x5C] @ ''infogl.dll'') w of
         (None, w') \<Rightarrow> False
       | (Some lib, w') \<Rightarrow>
           GetProcAddress e lib ''oevInitWad'' w' \<noteq> None
           \<and> GetProcAddress e lib ''oevReadCpuid'' w' \<noteq> None
           \<and> GetProcAddress e lib ''oevRunRenderingTests'' w' \<noteq> None))
   \<and> (\<not> m_initialized t
        \<and> \<not> fst (LoadDLL e (m_dllPath t) (m_pImpl t) (SetupDPIAwareness e w)) \<longrightarrow>
        (\<exists>t' w'. Initialize e (t, w) = Inr (False, t', w')
           \<and> GetLastError t' = ''Failed to load infogl.dll or required functions''
           \<and> \<not> IsInitialized t'))"
proof (intro conjI impI)
  show "fst (LoadDLL e dllPath impl w) \<longleftrightarrow>
      (case LoadLibraryA e (if dllPath = [] then ''infogl.dll''
                            else dllPath @ [CHR 0x5C] @ ''infogl.dll'') w of
         (None, w') \<Rightarrow> False
       | (Some lib, w') \<Rightarrow>
           GetProcAddress e lib ''oevInitWad'' w' \<noteq> None
           \<and> GetProcAddress e lib ''oevReadCpuid'' w' \<noteq> None
           \<and> GetProcAddress e lib ''oevRunRenderingTests'' w' \<noteq> None)"
    by (simp add: LoadDLL_def Let_def split: prod.splits option.splits)
next
  assume a: "\<not> m_initialized t
        \<and> \<not> fst (LoadDLL e (m_dllPath t) (m_pImpl t) (SetupDPIAwareness e w))"
  obtain ok impl' w' where
    l: "LoadDLL e (m_dllPath t) (m_pImpl t) (SetupDPIAwareness e w) = (ok, impl', w')"
    by (cases "LoadDLL e (m_dllPath t) (m_pImpl t) (SetupDPIAwareness e w)")
  with a have "\<not> ok" by simp
  with a l show "\<exists>t' w'. Initialize e (t, w) = Inr (False, t', w')
           \<and> GetLastError t' = ''Failed to load infogl.dll or required functions''
           \<and> \<not> IsInitialized t'"
    by (simp add: Initialize_def InitLibrary_def SetLastError_def GetLastError_def
        IsInitialized_def Let_def)
qed

text \<open>The library loads but does not export \<open>oevReadCpuid\<close>.\<close>

theorem LoadDLL_binding_witness:
  "\<not> m_initialized (RenderingTester_new [] [])
   \<and> \<not> fst (LoadDLL (stub_env [''oevInitWad'', ''oevRunRenderingTests''] 0 []) [] Impl_new 0)
   \<and> (\<exists>t' w'. Initialize (stub_env [''oevInitWad'', ''oevRunRenderingTests''] 0 [])
                  (RenderingTester_new [] [], 0) = Inr (False, t', w')
           \<and> GetLastError t' = ''Failed to load infogl.dll or required functions''
           \<and> \<not> IsInitialized t')"
proof -
  have h: "\<not> m_initialized (RenderingTester_new [] [])
     \<and> \<not> fst (LoadDLL (stub_env [''oevInitWad'', ''oevRunRenderingTests''] 0 [])
               (m_dllPath (RenderingTester_new [] [])) (m_pImpl (RenderingTester_new [] []))
               (SetupDPIAwareness (stub_env [''oevInitWad'', ''oevRunRenderingTests''] 0 []) 0))"
    by (simp add: RenderingTester_new_def LoadDLL_def SetupDPIAwareness_def stub_env_def Let_def)
  from LoadDLL_binding [where e = "stub_env [''oevInitWad'', ''oevRunRenderingTests''] 0 []"
      and dllPath = "[]" and impl = Impl_new and w = 0 and t = "RenderingTester_new [] []",
      THEN conjunct2, rule_format, OF h] h
  show ?thesis
    by (simp add: RenderingTester_new_def SetupDPIAwareness_def stub_env_def)
qed

text \<open>
  C9. On a tester that is already initialized, \<open>Initialize\<close> returns true and gives back
  the tester and the outside world exactly as they were: no library call, no log line,
  no change of the last error. In particular a call that follows a successful call does
  nothing.
\<close>

theorem Initialize_idempotent:
  "(m_initialized t \<longrightarrow> Initialize e (t, w) = Inr (True, t, w))
   \<and> (Initialize e s = Inr (True, s') \<longrightarrow> Initialize e s' = Inr (True, s'))"
proof (intro conjI impI)
  assume "m_initialized t"
  then show "Initialize e (t, w) = Inr (True, t, w)" by (rule Initialize_initialized)
next
  assume ok: "Initialize e s = Inr (True, s')"
  obtain t w where s: "s = (t, w)" by (cases s)
  obtain t' w' where s': "s' = (t', w')" by (cases s')
  have "m_initialized t'"
  proof (cases "m_initialized t")
    case True
    with ok s s' show ?thesis by (simp add: Initialize_initialized)
  next
    case False
    with ok s s' Initialize_result [of e t w True t' w'] show ?thesis by simp
  qed
  then show "Initialize e s' = Inr (True, s')" by (simp add: s' Initialize_initialized)
qed

theorem Initialize_idempotent_witness:
  "m_initialized stub_initialized
   \<and> Initialize (stub_env stub_exports 0 []) (RenderingTester_new [] [], 0)
       = Inr (True, stub_initialized, 0)
   \<and> Initialize (stub_env stub_exports 0 []) (stub_initialized, 0)
       = Inr (True, stub_initialized, 0)"
  using Initialize_idempotent [of stub_initialized "stub_env stub_exports 0 []" 0
          "(RenderingTester_new [] [], 0)" "(stub_initialized, 0)"]
    stub_Initialize [of "[]"]
  by (simp add: stub_initialized_def)

section \<open>Running a single test\<close>

lemma RunSingleTest_run_tester:
  "funcRunRenderingTests (m_pImpl t) \<noteq> None \<Longrightarrow>
     \<exists>res w'. RunSingleTest_run e config res0 (t, w) = Inr (res, t, w')"
  by (auto simp: RunSingleTest_run_def Let_def split: prod.splits option.splits)

lemma RunSingleTest_initialized:
  "m_initialized t \<Longrightarrow>
     RunSingleTest e config (t, w) = RunSingleTest_run e config TestResult_new (t, w)"
  by (simp add: RunSingleTest_def)

lemma RunSingleTest_uninitialized:
  "\<not> m_initialized t \<Longrightarrow> Initialize e (t, w) = Inr (ok, t1, w1) \<Longrightarrow>
     RunSingleTest e config (t, w) =
       (if ok then RunSingleTest_run e config TestResult_new (t1, w1)
        else Inr (TestResult_new\<lparr>errorMessage := m_lastError t1\<rparr>, t1, w1))"
  by (simp add: RunSingleTest_def GetLastError_def)

lemma RunSingleTest_via_Initialize:
  "Initialize e (t, w) = Inr (ok, t1, w1) \<Longrightarrow>
     RunSingleTest e config (t, w) =
       (if ok then RunSingleTest_run e config TestResult_new (t1, w1)
        else Inr (TestResult_new\<lparr>errorMessage := m_lastError t1\<rparr>, t1, w1))"
  by (cases "m_initialized t")
     (auto simp: RunSingleTest_uninitialized RunSingleTest_initialized Initialize_initialized)

lemma Initialize_invariant:
  "RenderingTester_invariant t \<Longrightarrow> Initialize e (t, w) = Inr (ok, t1, w1) \<Longrightarrow>
     RenderingTester_invariant t1 \<and> m_initialized t1 = ok"
  by (cases "m_initialized t")
     (auto simp: Initialize_initialized RenderingTester_invariant_def dest: Initialize_result)

lemma stub_initialized_invariant: "RenderingTester_invariant stub_initialized"
  by (simp add: RenderingTester_invariant_def stub_initialized_def)

lemma stub_RunSingleTest_passed:
  "RunSingleTest (stub_env stub_exports 0 [Some stub_passed]) config (stub_initialized, 0)
   = Inr (\<lparr>testIndex = 7, passed = True, averageFPS = Fp_finite 60, errorMessage = []\<rparr>,
          stub_initialized, 1)"
  by (simp add: RunSingleTest_def RunSingleTest_run_def stub_env_def stub_initialized_def
      stub_passed_def TestResult_new_def Logger_Info_def LogMessage_def Let_def)

text \<open>
  C1. For every configuration and every reachable tester, \<open>RunSingleTest\<close> first makes
  sure the tester is initialized (\<open>Initialize\<close> returns at once on an initialized
  tester). If that fails, no test is run and the result carries the last error. Otherwise
  the run-tests entry point is called with the serialized configuration, and the record
  it returns is translated: a null record or a null status string gives \<open>passed = false\<close>
  with the message "No test results returned"; a status other than \<open>OK\<close> gives
  \<open>passed = false\<close>, the status as error message and the record's index; the status
  \<open>OK\<close> gives \<open>passed = true\<close> with the record's fps and index.
\<close>

theorem RunSingleTest_translation:
  assumes inv: "RenderingTester_invariant t"
  shows "\<exists>ok t1 w1. Initialize e (t, w) = Inr (ok, t1, w1) \<and>
     (if \<not> ok then
        RunSingleTest e config (t, w)
          = Inr (TestResult_new\<lparr>errorMessage := GetLastError t1\<rparr>, t1, w1)
      else
        (\<exists>f testResults w2 res w3.
           funcRunRenderingTests (m_pImpl t1) = Some f
           \<and> call_oevRunRenderingTests e f (BuildXMLConfiguration e w1 config)
                (Logger_Info e ''Running test with config: %s''
                   [Arg_string (BuildXMLConfiguration e w1 config)] w1) = (testResults, w2)
           \<and> RunSingleTest e config (t, w) = Inr (res, t1, w3)
           \<and> (case testResults of
                 None \<Rightarrow> \<not> passed res \<and> errorMessage res = ''No test results returned''
               | Some r \<Rightarrow>
                   (case result r of
                      None \<Rightarrow> \<not> passed res \<and> errorMessage res = ''No test results returned''
                    | Some status \<Rightarrow>
                        if status = ''OK''
                        then passed res \<and> averageFPS res = fps r \<and> testIndex res = index r
                        else \<not> passed res \<and> errorMessage res = status
                             \<and> testIndex res = index r))))"
proof -
  obtain ok t1 w1 where i: "Initialize e (t, w) = Inr (ok, t1, w1)"
    using Initialize_total [of e t w] by blast
  note r = RunSingleTest_via_Initialize [OF i, of config]
  have "if \<not> ok then
        RunSingleTest e config (t, w)
          = Inr (TestResult_new\<lparr>errorMessage := GetLastError t1\<rparr>, t1, w1)
      else
        (\<exists>f testResults w2 res w3.
           funcRunRenderingTests (m_pImpl t1) = Some f
           \<and> call_oevRunRenderingTests e f (BuildXMLConfiguration e w1 config)
                (Logger_Info e ''Running test with config: %s''
                   [Arg_string (BuildXMLConfiguration e w1 config)] w1) = (testResults, w2)
           \<and> RunSingleTest e config (t, w) = Inr (res, t1, w3)
           \<and> (case testResults of
                 None \<Rightarrow> \<not> passed res \<and> errorMessage res = ''No test results returned''
               | Some r \<Rightarrow>
                   (case result r of
                      None \<Rightarrow> \<not> passed res \<and> errorMessage res = ''No test results returned''
                    | Some status \<Rightarrow>
                        if status = ''OK''
                        then passed res \<and> averageFPS res = fps r \<and> testIndex res = index r
                        else \<not> passed res \<and> errorMessage res = status
                             \<and> testIndex res = index r)))"
  proof (cases ok)
    case False
    with r show ?thesis by (simp add: GetLastError_def)
  next
    case True
    with Initialize_invariant [OF inv i] obtain f where f: "funcRunRenderingTests (m_pImpl t1) = Some f"
      by (auto simp: RenderingTester_invariant_def)
    obtain testResults w2 where c: "call_oevRunRenderingTests e f (BuildXMLConfiguration e w1 config)
                (Logger_Info e ''Running test with config: %s''
                   [Arg_string (BuildXMLConfiguration e w1 config)] w1) = (testResults, w2)"
      by (cases "call_oevRunRenderingTests e f (BuildXMLConfiguration e w1 config)
                (Logger_Info e ''Running test with config: %s''
                   [Arg_string (BuildXMLConfiguration e w1 config)] w1)")
    from True r f c show ?thesis
      by (auto simp: RunSingleTest_run_def Let_def TestResult_new_def split: option.splits)
  qed
  with i show ?thesis by blast
qed

theorem RunSingleTest_translation_witness:
  "RenderingTester_invariant stub_initialized
   \<and> RunSingleTest (stub_env stub_exports 0 [Some stub_passed]) TestConfig_default
        (stub_initialized, 0)
      = Inr (\<lparr>testIndex = 7, passed = True, averageFPS = Fp_finite 60, errorMessage = []\<rparr>,
             stub_initialized, 1)
   \<and> (\<exists>ok t1 w1. Initialize (stub_env stub_exports 0 [Some stub_passed]) (stub_initialized, 0)
                     = Inr (ok, t1, w1))"
proof -
  note t = RunSingleTest_translation [OF stub_initialized_invariant,
          of "stub_env stub_exports 0 [Some stub_passed]" 0 TestConfig_default]
  from t have "\<exists>ok t1 w1. Initialize (stub_env stub_exports 0 [Some stub_passed])
                 (stub_initialized, 0) = Inr (ok, t1, w1)"
    by blast
  with stub_initialized_invariant stub_RunSingleTest_passed [of TestConfig_default]
  show ?thesis by blast
qed

text \<open>
  C10. On an initialized tester \<open>RunSingleTest\<close> returns the tester object as it was, so
  \<open>GetLastError\<close> gives the same string before and after, whatever the outcome of the
  test: a failure is reported in the result's \<open>errorMessage\<close> only.
\<close>

theorem RunSingleTest_keeps_last_error:
  assumes "m_initialized t" and "RenderingTester_invariant t"
  shows "\<exists>res t' w'. RunSingleTest e config (t, w) = Inr (res, t', w')
            \<and> GetLastError t' = GetLastError t \<and> t' = t"
proof -
  from assms have "funcRunRenderingTests (m_pImpl t) \<noteq> None"
    by (simp add: RenderingTester_invariant_def)
  from RunSingleTest_run_tester [OF this, of e config TestResult_new w]
  obtain res w' where "RunSingleTest_run e config TestResult_new (t, w) = Inr (res, t, w')"
    by blast
  with assms(1) show ?thesis by (simp add: RunSingleTest_initialized)
qed

theorem RunSingleTest_keeps_last_error_witness:
  "m_initialized (stub_initialized\<lparr>m_lastError := ''earlier error''\<rparr>)
   \<and> RenderingTester_invariant (stub_initialized\<lparr>m_lastError := ''earlier error''\<rparr>)
   \<and> (\<exists>res t' w'.
         RunSingleTest (stub_env stub_exports 0 [Some stub_failed]) TestConfig_default
           (stub_initialized\<lparr>m_lastError := ''earlier error''\<rparr>, 0) = Inr (res, t', w')
         \<and> GetLastError t' = GetLastError (stub_initialized\<lparr>m_lastError := ''earlier error''\<rparr>)
         \<and> t' = stub_initialized\<lparr>m_lastError := ''earlier error''\<rparr>)
   \<and> GetLastError (stub_initialized\<lparr>m_lastError := ''earlier error''\<rparr>) = ''earlier error''"
proof -
  have i: "m_initialized (stub_initialized\<lparr>m_lastError := ''earlier error''\<rparr>)"
    and v: "RenderingTester_invariant (stub_initialized\<lparr>m_lastError := ''earlier error''\<rparr>)"
    and g: "GetLastError (stub_initialized\<lparr>m_lastError := ''earlier error''\<rparr>) = ''earlier error''"
    by (simp_all add: RenderingTester_invariant_def stub_initialized_def GetLastError_def)
  from RunSingleTest_keeps_last_error [OF i v,
      of "stub_env stub_exports 0 [Some stub_failed]" TestConfig_default 0] i v g
  show ?thesis by blast
qed

section \<open>The serialized configuration\<close>












lemma option_bitmask:
  "BuildXMLConfiguration_options e config =
       (if fullscreen config then WGLDIAG_OPTION_FS OR WGLDIAG_OPTIONS_FS_EX e else 0)
    OR (if enableDebugOutput config then WGLDIAG_OPTION_DEBUG else 0)
    OR (if vsync config then WGLDIAG_OPTION_VSYNC else 0)
    OR (if fog config then WGLDIAG_OPTION_FOG else 0)
    OR (if transparency config then WGLDIAG_OPTION_TRANSPARENCY else 0)
    OR (if userClipPlane config then WGLDIAG_OPTION_CLIP_PLANE else 0)"
  unfolding BuildXMLConfiguration_options_def or_assign_def Let_def
  by (cases "fullscreen config"; cases "enableDebugOutput config"; cases "vsync config";
      cases "fog config"; cases "transparency config"; cases "userClipPlane config")
     (simp_all only: if_True if_False or.left_neutral or.right_neutral or.assoc)


lemma bit_one_shifted: "m < 32 \<Longrightarrow> bit (push_bit m 1 :: 32 word) n \<longleftrightarrow> n = m"
  unfolding push_bit_of_1 bit_exp_iff by (auto simp: possible_bit_word)

lemma bit_WGLDIAG:
  "bit WGLDIAG_OPTION_FS n \<longleftrightarrow> n = 11"
  "bit WGLDIAG_OPTION_DEBUG n \<longleftrightarrow> n = 20"
  "bit WGLDIAG_OPTION_VSYNC n \<longleftrightarrow> n = 12"
  "bit WGLDIAG_OPTION_FOG n \<longleftrightarrow> n = 5"
  "bit WGLDIAG_OPTION_TRANSPARENCY n \<longleftrightarrow> n = 13"
  "bit WGLDIAG_OPTION_CLIP_PLANE n \<longleftrightarrow> n = 10"
  unfolding WGLDIAG_OPTION_FS_def WGLDIAG_OPTION_DEBUG_def WGLDIAG_OPTION_VSYNC_def
    WGLDIAG_OPTION_FOG_def WGLDIAG_OPTION_TRANSPARENCY_def WGLDIAG_OPTION_CLIP_PLANE_def
  by (rule bit_one_shifted, simp)+

lemma bit_options:
  "bit (BuildXMLConfiguration_options e config) n \<longleftrightarrow>
       (fullscreen config \<and> (n = 11 \<or> bit (WGLDIAG_OPTIONS_FS_EX e) n))
     \<or> (enableDebugOutput config \<and> n = 20)
     \<or> (vsync config \<and> n = 12)
     \<or> (fog config \<and> n = 5)
     \<or> (transparency config \<and> n = 13)
     \<or> (userClipPlane config \<and> n = 10)"
  unfolding option_bitmask bit_or_iff
  by (simp add: bit_WGLDIAG bit_or_iff)


lemma BuildXMLConfiguration_unfold:
  "BuildXMLConfiguration e w config =
     CreateXMLElement ''root''
       (CreateXMLElement ''option'' (to_string (BuildXMLConfiguration_options e config))
        @ CreateXMLElement ''duration'' (to_string (testDurationSeconds config))
        @ CreateXMLElement ''multisample'' (to_string (multisampleCount config))
        @ CreateXMLElement ''anisotropy'' (to_string (maxAnisotropy config))
        @ CreateXMLElement ''texturelod'' (to_string (textureLOD config))
        @ CreateXMLElement ''displaymode''
            (to_string (FindDisplayMode (display_modes e w) (width config) (height config)))
        @ CreateXMLElement ''renderer'' (to_string (RendererType_int (renderer config)))
        @ CreateXMLElement ''pixelformat'' (to_string (pixelFormat config))
        @ CreateXMLElement ''test'' (GetTestVersionString (renderer config))
        @ CreateXMLElement ''fbenable'' (FramebufferTypeToString (fbType config))
        @ CreateXMLElement ''fbformat'' (FramebufferFormatToString (fbFormat config))
        @ CreateXMLElement ''scene'' (to_string (SceneType_int (scene config)))
        @ CreateXMLElement ''width'' (to_string (width config))
        @ CreateXMLElement ''height'' (to_string (height config)))"
  unfolding BuildXMLConfiguration_def Let_def by (simp only: append_Nil append_assoc)


lemma to_string_small: "to_string 0 = ''0''" "to_string 5 = ''5''" "to_string 12 = ''12''"
  "to_string 1920 = ''1920''" "to_string 1080 = ''1080''"
  by (simp_all add: to_string_def decimal_digits.simps digit_char_def)

lemma option_element_first:
  "prefix (''<root><option>'' @ to_string (BuildXMLConfiguration_options e config) @ ''</option>'')
     (BuildXMLConfiguration e w config)"
  unfolding BuildXMLConfiguration_unfold CreateXMLElement_def by simp

lemma enumerator_strings:
  "to_string (RendererType_int OpenGL_4_6) = ''12''"
  "to_string (SceneType_int SingleCube) = ''0''"
  "GetTestVersionString OpenGL_4_6 = ''4.6''"
  "FramebufferTypeToString Default = ''Default''"
  "FramebufferFormatToString RGB_Linear = ''Linear''"
  by (simp_all add: GetTestVersionString_def FramebufferTypeToString_def
      FramebufferFormatToString_def RendererType_enumerators SceneType_enumerators
      FramebufferFormat_enumerators FramebufferType_enumerators to_string_small)

lemma CreateDefaultConfig_xml:
  "BuildXMLConfiguration e w CreateDefaultConfig =
     ''<root><option>0</option>\<newline><duration>5</duration>\<newline><multisample>0</multisample>\<newline><anisotropy>0</anisotropy>\<newline><texturelod>0</texturelod>\<newline><displaymode>''
     @ to_string (FindDisplayMode (display_modes e w) 1920 1080)
     @ ''</displaymode>\<newline><renderer>12</renderer>\<newline><pixelformat>1</pixelformat>\<newline><test>4.6</test>\<newline><fbenable>Default</fbenable>\<newline><fbformat>Linear</fbformat>\<newline><scene>0</scene>\<newline><width>1920</width>\<newline><height>1080</height>\<newline></root>\<newline>''"
proof -
  have o: "BuildXMLConfiguration_options e CreateDefaultConfig = 0"
    unfolding option_bitmask by (simp add: CreateDefaultConfig_def TestConfig_default_def)
  have t1: "to_string 1 = ''1''"
    by (simp add: to_string_def decimal_digits.simps digit_char_def)
  show ?thesis
    unfolding BuildXMLConfiguration_unfold o
    by (simp add: CreateDefaultConfig_def TestConfig_default_def CreateXMLElement_def
        to_string_small t1 enumerator_strings)
qed

lemma stub_flags_options:
  "BuildXMLConfiguration_options (stub_env stub_exports 0 []) stub_flags = 1061920"
  unfolding option_bitmask
  by (simp add: stub_flags_def TestConfig_default_def WGLDIAG_OPTION_DEBUG_def
      WGLDIAG_OPTION_VSYNC_def WGLDIAG_OPTION_FOG_def WGLDIAG_OPTION_TRANSPARENCY_def
      WGLDIAG_OPTION_CLIP_PLANE_def)

text \<open>
  C3. The option bitmask is the bitwise OR of the constants of the flags that are set:
  \<open>fullscreen\<close> gives \<open>WGLDIAG_OPTION_FS\<close> (bit 11) together with
  \<open>WGLDIAG_OPTIONS_FS_EX\<close>, \<open>enableDebugOutput\<close> bit 20, \<open>vsync\<close> bit 12, \<open>fog\<close> bit 5,
  \<open>transparency\<close> bit 13 and \<open>userClipPlane\<close> bit 10. A bit is set in the mask only if
  a flag that is set contributes it. The serialized document starts with the \<open>option\<close>
  element holding the decimal string of the mask. With all six flags false the mask is
  0 and the element is \<open><option>0</option>\<close>.
\<close>

theorem option_element_bitmask:
  "BuildXMLConfiguration_options e config =
       (if fullscreen config then WGLDIAG_OPTION_FS OR WGLDIAG_OPTIONS_FS_EX e else 0)
    OR (if enableDebugOutput config then WGLDIAG_OPTION_DEBUG else 0)
    OR (if vsync config then WGLDIAG_OPTION_VSYNC else 0)
    OR (if fog config then WGLDIAG_OPTION_FOG else 0)
    OR (if transparency config then WGLDIAG_OPTION_TRANSPARENCY else 0)
    OR (if userClipPlane config then WGLDIAG_OPTION_CLIP_PLANE else 0)
   \<and> (\<forall>n. bit (BuildXMLConfiguration_options e config) n \<longleftrightarrow>
            (fullscreen config \<and> (n = 11 \<or> bit (WGLDIAG_OPTIONS_FS_EX e) n))
          \<or> (enableDebugOutput config \<and> n = 20)
          \<or> (vsync config \<and> n = 12)
          \<or> (fog config \<and> n = 5)
          \<or> (transparency config \<and> n = 13)
          \<or> (userClipPlane config \<and> n = 10))
   \<and> prefix (''<root><option>'' @ to_string (BuildXMLConfiguration_options e config)
               @ ''</option>'')
        (BuildXMLConfiguration e w config)
   \<and> (\<not> fullscreen config \<and> \<not> enableDebugOutput config \<and> \<not> vsync config \<and> \<not> fog config
        \<and> \<not> transparency config \<and> \<not> userClipPlane config \<longrightarrow>
        BuildXMLConfiguration_options e config = 0
        \<and> prefix ''<root><option>0</option>'' (BuildXMLConfiguration e w config))"
proof (intro conjI allI impI)
  show "BuildXMLConfiguration_options e config =
       (if fullscreen config then WGLDIAG_OPTION_FS OR WGLDIAG_OPTIONS_FS_EX e else 0)
    OR (if enableDebugOutput config then WGLDIAG_OPTION_DEBUG else 0)
    OR (if vsync config then WGLDIAG_OPTION_VSYNC else 0)
    OR (if fog config then WGLDIAG_OPTION_FOG else 0)
    OR (if transparency config then WGLDIAG_OPTION_TRANSPARENCY else 0)
    OR (if userClipPlane config then WGLDIAG_OPTION_CLIP_PLANE else 0)"
    by (rule option_bitmask)
next
  fix n
  show "bit (BuildXMLConfiguration_options e config) n \<longleftrightarrow>
            (fullscreen config \<and> (n = 11 \<or> bit (WGLDIAG_OPTIONS_FS_EX e) n))
          \<or> (enableDebugOutput config \<and> n = 20)
          \<or> (vsync config \<and> n = 12)
          \<or> (fog config \<and> n = 5)
          \<or> (transparency config \<and> n = 13)
          \<or> (userClipPlane config \<and> n = 10)"
    by (rule bit_options)
next
  show "prefix (''<root><option>'' @ to_string (BuildXMLConfiguration_options e config)
               @ ''</option>'')
        (BuildXMLConfiguration e w config)"
    by (rule option_element_first)
next
  assume off: "\<not> fullscreen config \<and> \<not> enableDebugOutput config \<and> \<not> vsync config
        \<and> \<not> fog config \<and> \<not> transparency config \<and> \<not> userClipPlane config"
  then show z: "BuildXMLConfiguration_options e config = 0"
    unfolding option_bitmask by simp
  from option_element_first [of e config w]
  show "prefix ''<root><option>0</option>'' (BuildXMLConfiguration e w config)"
    unfolding z by (simp add: to_string_small)
qed

theorem option_element_bitmask_witness:
  "\<not> fullscreen TestConfig_default \<and> \<not> enableDebugOutput TestConfig_default
   \<and> \<not> vsync TestConfig_default \<and> \<not> fog TestConfig_default
   \<and> \<not> transparency TestConfig_default \<and> \<not> userClipPlane TestConfig_default
   \<and> BuildXMLConfiguration_options (stub_env stub_exports 0 []) TestConfig_default = 0
   \<and> prefix ''<root><option>0</option>''
        (BuildXMLConfiguration (stub_env stub_exports 0 []) 0 TestConfig_default)
   \<and> prefix ''<root><option>1061920</option>''
        (BuildXMLConfiguration (stub_env stub_exports 0 []) 0 stub_flags)"
proof -
  have off: "\<not> fullscreen TestConfig_default \<and> \<not> enableDebugOutput TestConfig_default
     \<and> \<not> vsync TestConfig_default \<and> \<not> fog TestConfig_default
     \<and> \<not> transparency TestConfig_default \<and> \<not> userClipPlane TestConfig_default"
    by (simp add: TestConfig_default_def)
  note d = option_element_bitmask [of "stub_env stub_exports 0 []" TestConfig_default 0]
  note f = option_element_bitmask [of "stub_env stub_exports 0 []" stub_flags 0]
  have s: "to_string 1061920 = ''1061920''"
    by (simp add: to_string_def decimal_digits.simps digit_char_def)
  from f have "prefix ''<root><option>1061920</option>''
        (BuildXMLConfiguration (stub_env stub_exports 0 []) 0 stub_flags)"
    unfolding stub_flags_options s by simp
  with d off show ?thesis by blast
qed



lemma sublist_in_left: "sublist xs ys \<Longrightarrow> sublist xs (ys @ zs)"
  by (metis append.assoc sublist_def)

lemma sublist_in_right: "sublist xs zs \<Longrightarrow> sublist xs (ys @ zs)"
  by (metis append.assoc sublist_def)

text \<open>
  C5. The configuration of \<open>CreateDefaultConfig\<close> (OpenGL 4.6, single cube, 1920 by
  1080, 5 seconds, everything else default) serializes, in every environment, to a
  document that starts with \<open><root>\<close>, ends with \<open></root>\<close> and a newline, and contains
  the six elements of the example.
\<close>

theorem CreateDefaultConfig_serialized:
  "CreateDefaultConfig =
     TestConfig_default\<lparr>renderer := OpenGL_4_6, scene := SingleCube, width := 1920,
       height := 1080, testDurationSeconds := 5\<rparr>
   \<and> prefix ''<root>'' (BuildXMLConfiguration e w CreateDefaultConfig)
   \<and> suffix ''</root>\<newline>'' (BuildXMLConfiguration e w CreateDefaultConfig)
   \<and> sublist ''<renderer>12</renderer>'' (BuildXMLConfiguration e w CreateDefaultConfig)
   \<and> sublist ''<scene>0</scene>'' (BuildXMLConfiguration e w CreateDefaultConfig)
   \<and> sublist ''<width>1920</width>'' (BuildXMLConfiguration e w CreateDefaultConfig)
   \<and> sublist ''<height>1080</height>'' (BuildXMLConfiguration e w CreateDefaultConfig)
   \<and> sublist ''<duration>5</duration>'' (BuildXMLConfiguration e w CreateDefaultConfig)
   \<and> sublist ''<test>4.6</test>'' (BuildXMLConfiguration e w CreateDefaultConfig)"
proof (intro conjI)
  show "CreateDefaultConfig =
     TestConfig_default\<lparr>renderer := OpenGL_4_6, scene := SingleCube, width := 1920,
       height := 1080, testDurationSeconds := 5\<rparr>"
    by (simp add: CreateDefaultConfig_def TestConfig_default_def)
  show "prefix ''<root>'' (BuildXMLConfiguration e w CreateDefaultConfig)"
    unfolding CreateDefaultConfig_xml by simp
  show "suffix ''</root>\<newline>'' (BuildXMLConfiguration e w CreateDefaultConfig)"
    unfolding CreateDefaultConfig_xml
    by (intro suffix_appendI) (simp add: suffix_def)
  show "sublist ''<duration>5</duration>'' (BuildXMLConfiguration e w CreateDefaultConfig)"
    unfolding CreateDefaultConfig_xml
    by (rule sublist_in_left) (simp add: sublist_Cons_right)
  show "sublist ''<renderer>12</renderer>'' (BuildXMLConfiguration e w CreateDefaultConfig)"
    unfolding CreateDefaultConfig_xml
    by (intro sublist_in_right) (simp add: sublist_Cons_right)
  show "sublist ''<scene>0</scene>'' (BuildXMLConfiguration e w CreateDefaultConfig)"
    unfolding CreateDefaultConfig_xml
    by (intro sublist_in_right) (simp add: sublist_Cons_right)
  show "sublist ''<width>1920</width>'' (BuildXMLConfiguration e w CreateDefaultConfig)"
    unfolding CreateDefaultConfig_xml
    by (intro sublist_in_right) (simp add: sublist_Cons_right)
  show "sublist ''<height>1080</height>'' (BuildXMLConfiguration e w CreateDefaultConfig)"
    unfolding CreateDefaultConfig_xml
    by (intro sublist_in_right) (simp add: sublist_Cons_right)
  show "sublist ''<test>4.6</test>'' (BuildXMLConfiguration e w CreateDefaultConfig)"
    unfolding CreateDefaultConfig_xml
    by (intro sublist_in_right) (simp add: sublist_Cons_right)
qed

text \<open>
  C7. Serialization reads nothing but the configuration and the list of display modes:
  two runs on equal configurations, in any two states of the world that enumerate the
  same display modes, produce the same string.
\<close>

theorem BuildXMLConfiguration_deterministic:
  assumes "config1 = config2" and "display_modes e w1 = display_modes e w2"
  shows "BuildXMLConfiguration e w1 config1 = BuildXMLConfiguration e w2 config2"
  using assms by (simp add: BuildXMLConfiguration_unfold)

theorem BuildXMLConfiguration_deterministic_witness:
  "CreateDefaultConfig = CreateDefaultConfig
   \<and> display_modes (stub_env stub_exports 0 []) 0 = display_modes (stub_env stub_exports 0 []) 7
   \<and> BuildXMLConfiguration (stub_env stub_exports 0 []) 0 CreateDefaultConfig
       = BuildXMLConfiguration (stub_env stub_exports 0 []) 7 CreateDefaultConfig"
proof -
  have m: "display_modes (stub_env stub_exports 0 []) 0
         = display_modes (stub_env stub_exports 0 []) 7"
    by (simp add: stub_env_def)
  from BuildXMLConfiguration_deterministic [OF refl m, of CreateDefaultConfig] m
  show ?thesis by simp
qed

section \<open>Running several tests\<close>

lemma RunSingleTest_total:
  assumes "RenderingTester_invariant t"
  shows "\<exists>res t' w'. RunSingleTest e config (t, w) = Inr (res, t', w')
           \<and> RenderingTester_invariant t'"
proof -
  obtain ok t1 w1 where i: "Initialize e (t, w) = Inr (ok, t1, w1)"
    using Initialize_total [of e t w] by blast
  from Initialize_invariant [OF assms i]
  have inv1: "RenderingTester_invariant t1" and ok: "m_initialized t1 = ok" by simp_all
  show ?thesis
  proof (cases ok)
    case False
    with RunSingleTest_via_Initialize [OF i, of config] inv1 show ?thesis by simp
  next
    case True
    with inv1 ok have "funcRunRenderingTests (m_pImpl t1) \<noteq> None"
      by (simp add: RenderingTester_invariant_def)
    from RunSingleTest_run_tester [OF this, of e config TestResult_new w1]
    obtain res w' where "RunSingleTest_run e config TestResult_new (t1, w1) = Inr (res, t1, w')"
      by blast
    with True RunSingleTest_via_Initialize [OF i, of config] inv1 show ?thesis by simp
  qed
qed

lemma state_after_snoc:
  "RunSingleTest e config (state_after e configs s) = Inr (res, s') \<Longrightarrow>
     state_after e (configs @ [config]) s = s'"
  by (simp add: state_after_def)

lemma state_after_Nil: "state_after e [] s = s"
  by (simp add: state_after_def)

lemma RunMultipleTests_for_invariant:
  assumes "RenderingTester_invariant (fst s)"
    and "i \<le> length configs"
    and "s = state_after e (take i configs) s0"
    and "length results = i"
    and "\<forall>j<i. \<exists>sj. RunSingleTest e (configs ! j) (state_after e (take j configs) s0)
                      = Inr (results ! j, sj)"
    and "u = foldl (\<lambda>u (k, r). callback (of_nat k) (of_nat (length configs)) r u) u0
               (zip [1..<Suc i] results)"
  shows "\<exists>results' u'.
     RunMultipleTests_for e configs (Some callback) i results s u
       = Inr (results', state_after e configs s0, u')
     \<and> length results' = length configs
     \<and> (\<forall>j<length configs. \<exists>sj.
           RunSingleTest e (configs ! j) (state_after e (take j configs) s0)
             = Inr (results' ! j, sj))
     \<and> u' = foldl (\<lambda>u (k, r). callback (of_nat k) (of_nat (length configs)) r u) u0
               (zip [1..<Suc (length configs)] results')"
  using assms
proof (induction "length configs - i" arbitrary: i results s u)
  case 0
  then have i: "i = length configs" by simp
  with 0 show ?case
    by (subst RunMultipleTests_for.simps) simp
next
  case (Suc d)
  then have lt: "i < length configs" and d: "d = length configs - Suc i" by simp_all
  obtain t w where s: "s = (t, w)" by (cases s)
  with Suc.prems(1) have "RenderingTester_invariant t" by simp
  from RunSingleTest_total [OF this, of e "configs ! i" w] s
  obtain res t' w' where r: "RunSingleTest e (configs ! i) s = Inr (res, t', w')"
    and inv': "RenderingTester_invariant t'"
    by blast
  have tk: "take (Suc i) configs = take i configs @ [configs ! i]"
    using lt by (simp add: take_Suc_conv_app_nth)
  from r Suc.prems(3) have s': "(t', w') = state_after e (take (Suc i) configs) s0"
    unfolding tk by (simp add: state_after_snoc)
  have len: "length (results @ [res]) = Suc i" using Suc.prems(4) by simp
  have prev: "\<forall>j<Suc i. \<exists>sj. RunSingleTest e (configs ! j) (state_after e (take j configs) s0)
                      = Inr ((results @ [res]) ! j, sj)"
  proof (intro allI impI)
    fix j assume "j < Suc i"
    then consider "j < i" | "j = i" by linarith
    then show "\<exists>sj. RunSingleTest e (configs ! j) (state_after e (take j configs) s0)
                      = Inr ((results @ [res]) ! j, sj)"
    proof cases
      case 1
      with Suc.prems(4,5) show ?thesis by (simp add: nth_append)
    next
      case 2
      with r Suc.prems(3,4) show ?thesis by (simp add: nth_append)
    qed
  qed
  have z: "zip [1..<Suc (Suc i)] (results @ [res]) = zip [1..<Suc i] results @ [(Suc i, res)]"
    using Suc.prems(4) by simp
  have u': "callback (of_nat (i + 1)) (of_nat (length configs)) res u
        = foldl (\<lambda>u (k, r). callback (of_nat k) (of_nat (length configs)) r u) u0
               (zip [1..<Suc (Suc i)] (results @ [res]))"
    unfolding z using Suc.prems(6) by simp
  from lt have le: "Suc i \<le> length configs" by simp
  have inv'': "RenderingTester_invariant (fst (t', w'))" using inv' by simp
  note IH = Suc.hyps(1) [OF d inv'' le s' len prev u']
  have step: "RunMultipleTests_for e configs (Some callback) i results s u
      = RunMultipleTests_for e configs (Some callback) (Suc i) (results @ [res]) (t', w')
          (callback (of_nat (i + 1)) (of_nat (length configs)) res u)"
    using lt r by (subst RunMultipleTests_for.simps) (simp add: Let_def)
  from IH show ?case unfolding step .
qed

lemma sint_of_nat_small:
  "k < 2 ^ 31 \<Longrightarrow> sint (of_nat k :: c_int) = int k"
proof -
  assume k: "k < 2 ^ 31"
  have "sint (of_nat k :: c_int) = signed_take_bit 31 (int k)"
    using signed_of_nat [of k, where 'b = 32 and 'a = int] by simp
  also have "\<dots> = int k"
  proof (rule signed_take_bit_int_eq_self)
    show "- (2 ^ 31) \<le> int k" by simp
    from k have "int k < int (2 ^ 31)" by (rule iffD2 [OF of_nat_less_iff])
    then show "int k < 2 ^ 31" by simp
  qed
  finally show ?thesis .
qed

lemma stub_RunSingleTest:
  "RunSingleTest (stub_env stub_exports 0 [Some stub_passed, Some stub_failed]) config
     (stub_initialized, w)
   = Inr (if w = 0 then \<lparr>testIndex = 7, passed = True, averageFPS = Fp_finite 60,
                          errorMessage = []\<rparr>
          else if w = 1 then \<lparr>testIndex = 8, passed = False, averageFPS = Fp_finite 0,
                               errorMessage = ''Unsupported renderer''\<rparr>
          else \<lparr>testIndex = 0, passed = False, averageFPS = Fp_finite 0,
                 errorMessage = ''No test results returned''\<rparr>,
          stub_initialized, Suc w)"
  by (simp add: RunSingleTest_def RunSingleTest_run_def stub_env_def stub_initialized_def
      stub_passed_def stub_failed_def TestResult_new_def Logger_Info_def Logger_Error_def
      LogMessage_def Let_def nth_Cons')

lemma stub_RunMultipleTests:
  "RunMultipleTests (stub_env stub_exports 0 [Some stub_passed, Some stub_failed])
     [CreateDefaultConfig, stub_flags, TestConfig_default] (Some stub_recorder)
     (stub_initialized, 0) []
   = Inr ([\<lparr>testIndex = 7, passed = True, averageFPS = Fp_finite 60, errorMessage = []\<rparr>,
           \<lparr>testIndex = 8, passed = False, averageFPS = Fp_finite 0,
             errorMessage = ''Unsupported renderer''\<rparr>,
           \<lparr>testIndex = 0, passed = False, averageFPS = Fp_finite 0,
             errorMessage = ''No test results returned''\<rparr>],
          (stub_initialized, 3),
          [(1, 3, True), (2, 3, False), (3, 3, False)])"
  unfolding RunMultipleTests_def
  apply (subst RunMultipleTests_for.simps, simp add: stub_RunSingleTest stub_recorder_def)
  apply (subst RunMultipleTests_for.simps, simp add: stub_RunSingleTest stub_recorder_def)
  apply (subst RunMultipleTests_for.simps, simp add: stub_RunSingleTest stub_recorder_def)
  apply (subst RunMultipleTests_for.simps, simp add: stub_RunSingleTest stub_recorder_def)
  done

text \<open>
  C2. For every list of \<open>N\<close> configurations, every progress callback and every reachable
  tester, \<open>RunMultipleTests\<close> returns \<open>N\<close> results. The \<open>i\<close>-th result is what
  \<open>RunSingleTest\<close> returns for the \<open>i\<close>-th configuration in the state the earlier tests
  left behind; whether a test passed plays no role, so a failed test does not end the
  batch. The callback's state at the end is the one obtained by calling it once per
  result, in order, the \<open>k\<close>-th call with the counts \<open>k\<close> and \<open>N\<close> (as \<open>int\<close>) and the
  \<open>k\<close>-th result: \<open>N\<close> calls in all. For fewer than \<open>2^31\<close> configurations the cast to
  \<open>int\<close> keeps the value of every count, so the completed count runs from 1 to \<open>N\<close>.
\<close>

theorem RunMultipleTests_results:
  assumes "RenderingTester_invariant (fst s)"
  shows "\<exists>results u'.
     RunMultipleTests e configs (Some callback) s u
       = Inr (results, state_after e configs s, u')
     \<and> length results = length configs
     \<and> (\<forall>i<length configs. \<exists>si.
           RunSingleTest e (configs ! i) (state_after e (take i configs) s)
             = Inr (results ! i, si))
     \<and> u' = foldl (\<lambda>u (k, r). callback (of_nat k) (of_nat (length configs)) r u) u
               (zip [1..<Suc (length configs)] results)
     \<and> (length configs < 2 ^ 31 \<longrightarrow>
          (\<forall>k \<in> {1..length configs}. sint (of_nat k :: c_int) = int k))"
proof -
  have cnt: "length configs < 2 ^ 31 \<longrightarrow>
          (\<forall>k \<in> {1..length configs}. sint (of_nat k :: c_int) = int k)"
    by (auto intro!: sint_of_nat_small)
  have p2: "0 \<le> length configs" by simp
  have p3: "s = state_after e (take 0 configs) s" by (simp add: state_after_Nil)
  have p4: "length ([] :: TestResult list) = 0" by simp
  have p5: "\<forall>j<0. \<exists>sj. RunSingleTest e (configs ! j) (state_after e (take j configs) s)
                      = Inr (([] :: TestResult list) ! j, sj)"
    by simp
  have p6: "u = foldl (\<lambda>u (k, r). callback (of_nat k) (of_nat (length configs)) r u) u
               (zip [1..<Suc 0] [])"
    by simp
  from RunMultipleTests_for_invariant [where i = 0 and results = "[]" and s = s
      and ?s0.0 = s and e = e and configs = configs and u = u and ?u0.0 = u
      and callback = callback, OF assms p2 p3 p4 p5 p6]
  obtain results u' where
    "RunMultipleTests_for e configs (Some callback) 0 [] s u
       = Inr (results, state_after e configs s, u')
     \<and> length results = length configs
     \<and> (\<forall>j<length configs. \<exists>sj.
           RunSingleTest e (configs ! j) (state_after e (take j configs) s)
             = Inr (results ! j, sj))
     \<and> u' = foldl (\<lambda>u (k, r). callback (of_nat k) (of_nat (length configs)) r u) u
               (zip [1..<Suc (length configs)] results)"
    by blast
  with cnt show ?thesis unfolding RunMultipleTests_def by blast
qed

theorem RunMultipleTests_results_witness:
  "RenderingTester_invariant (fst (stub_initialized, 0 :: nat))
   \<and> RunMultipleTests (stub_env stub_exports 0 [Some stub_passed, Some stub_failed])
       [CreateDefaultConfig, stub_flags, TestConfig_default] (Some stub_recorder)
       (stub_initialized, 0) []
     = Inr ([\<lparr>testIndex = 7, passed = True, averageFPS = Fp_finite 60, errorMessage = []\<rparr>,
             \<lparr>testIndex = 8, passed = False, averageFPS = Fp_finite 0,
               errorMessage = ''Unsupported renderer''\<rparr>,
             \<lparr>testIndex = 0, passed = False, averageFPS = Fp_finite 0,
               errorMessage = ''No test results returned''\<rparr>],
            (stub_initialized, 3),
            [(1, 3, True), (2, 3, False), (3, 3, False)])
   \<and> state_after (stub_env stub_exports 0 [Some stub_passed, Some stub_failed])
        [CreateDefaultConfig, stub_flags, TestConfig_default] (stub_initialized, 0)
       = (stub_initialized, 3)"
proof -
  have inv: "RenderingTester_invariant (fst (stub_initialized, 0 :: nat))"
    by (simp add: stub_initialized_invariant)
  from RunMultipleTests_results [OF inv,
      of "stub_env stub_exports 0 [Some stub_passed, Some stub_failed]"
         "[CreateDefaultConfig, stub_flags, TestConfig_default]" stub_recorder "[]"]
  have "state_after (stub_env stub_exports 0 [Some stub_passed, Some stub_failed])
        [CreateDefaultConfig, stub_flags, TestConfig_default] (stub_initialized, 0)
       = (stub_initialized, 3)"
    unfolding stub_RunMultipleTests by simp
  with inv stub_RunMultipleTests show ?thesis by blast
qed

section \<open>The display-mode search of oevTest.cpp\<close>

lemma GetDisplayMode_while_unfold:
  "GetDisplayMode_while modes w h n =
     (if n < length modes
      then (if mode_matches w h (modes ! n) then Inl (int n)
            else GetDisplayMode_while modes w h (n + 1))
      else Inr n)"
  by (subst GetDisplayMode_while.simps) (simp add: EnumDisplaySettings_def mode_matches_def)

lemma GetDisplayMode_while_exhausted:
  "\<forall>j. n \<le> j \<and> j < length modes \<longrightarrow> \<not> mode_matches w h (modes ! j) \<Longrightarrow>
     GetDisplayMode_while modes w h n = Inr (max n (length modes))"
proof (induction "length modes - n" arbitrary: n)
  case 0
  then have "\<not> n < length modes" by simp
  then show ?case by (subst GetDisplayMode_while_unfold) (simp add: max_def)
next
  case (Suc d)
  then have lt: "n < length modes" and d: "d = length modes - (n + 1)" by simp_all
  from Suc.prems lt have nm: "\<not> mode_matches w h (modes ! n)" by simp
  from Suc.prems have "\<forall>j. n + 1 \<le> j \<and> j < length modes \<longrightarrow> \<not> mode_matches w h (modes ! j)"
    by simp
  from Suc.hyps(1) [OF d this]
  have "GetDisplayMode_while modes w h (n + 1) = Inr (max (n + 1) (length modes))" .
  with lt nm show ?case
    by (subst GetDisplayMode_while_unfold) (simp add: max_def)
qed

lemma GetDisplayMode_while_found:
  "k < length modes \<Longrightarrow> n \<le> k \<Longrightarrow> mode_matches w h (modes ! k) \<Longrightarrow>
   \<forall>j. n \<le> j \<and> j < k \<longrightarrow> \<not> mode_matches w h (modes ! j) \<Longrightarrow>
     GetDisplayMode_while modes w h n = Inl (int k)"
proof (induction "k - n" arbitrary: n)
  case 0
  then have "n = k" by simp
  with 0 show ?case by (subst GetDisplayMode_while_unfold) simp
next
  case (Suc d)
  then have lt: "n < k" and d: "d = k - (n + 1)" by simp_all
  from Suc.prems lt have nm: "\<not> mode_matches w h (modes ! n)" by simp
  from Suc.prems have rest: "\<forall>j. n + 1 \<le> j \<and> j < k \<longrightarrow> \<not> mode_matches w h (modes ! j)"
    by simp
  from lt have "n + 1 \<le> k" by simp
  from Suc.hyps(1) [OF d Suc.prems(1) this Suc.prems(3) rest]
  have "GetDisplayMode_while modes w h (n + 1) = Inl (int k)" .
  with lt nm Suc.prems(1) show ?case
    by (subst GetDisplayMode_while_unfold) simp
qed

lemma GetDisplayMode_while_cases:
  "(\<exists>k. n \<le> k \<and> k < length modes \<and> mode_matches w h (modes ! k)
        \<and> (\<forall>j. n \<le> j \<and> j < k \<longrightarrow> \<not> mode_matches w h (modes ! j))
        \<and> GetDisplayMode_while modes w h n = Inl (int k))
   \<or> ((\<forall>j. n \<le> j \<and> j < length modes \<longrightarrow> \<not> mode_matches w h (modes ! j))
        \<and> GetDisplayMode_while modes w h n = Inr (max n (length modes)))"
proof (cases "\<exists>k. n \<le> k \<and> k < length modes \<and> mode_matches w h (modes ! k)")
  case True
  then obtain k where k: "n \<le> k \<and> k < length modes \<and> mode_matches w h (modes ! k)"
    and least: "\<forall>j<k. \<not> (n \<le> j \<and> j < length modes \<and> mode_matches w h (modes ! j))"
    using exists_least_iff [of "\<lambda>k. n \<le> k \<and> k < length modes \<and> mode_matches w h (modes ! k)"]
    by blast
  from k least have "\<forall>j. n \<le> j \<and> j < k \<longrightarrow> \<not> mode_matches w h (modes ! j)" by auto
  with k GetDisplayMode_while_found [of k modes n w h] show ?thesis by blast
next
  case False
  then have "\<forall>j. n \<le> j \<and> j < length modes \<longrightarrow> \<not> mode_matches w h (modes ! j)" by blast
  with GetDisplayMode_while_exhausted [of n modes w h] show ?thesis by blast
qed

lemma GetDisplayMode_for_Some:
  assumes s: "GetDisplayMode_for modes w h n = Some y"
  shows "\<exists>k. n \<le> k \<and> k < length modes \<and> mode_matches w h (modes ! k)
         \<and> (\<forall>j. n \<le> j \<and> j < k \<longrightarrow> \<not> mode_matches w h (modes ! j)) \<and> y = int k"
proof (rule GetDisplayMode_for.raw_induct
    [where P = "\<lambda>modes w h n y. \<exists>k. n \<le> k \<and> k < length modes \<and> mode_matches w h (modes ! k)
         \<and> (\<forall>j. n \<le> j \<and> j < k \<longrightarrow> \<not> mode_matches w h (modes ! j)) \<and> y = int k", OF _ s])
  fix f :: "DEVMODE list \<Rightarrow> c_int \<Rightarrow> c_int \<Rightarrow> nat \<Rightarrow> int option"
  fix modes w h n y
  assume IH: "\<And>modes w h n y. f modes w h n = Some y \<Longrightarrow>
       \<exists>k. n \<le> k \<and> k < length modes \<and> mode_matches w h (modes ! k)
         \<and> (\<forall>j. n \<le> j \<and> j < k \<longrightarrow> \<not> mode_matches w h (modes ! j)) \<and> y = int k"
  assume eq: "(case GetDisplayMode_while modes w h n of Inl found \<Rightarrow> Some found
               | Inr n \<Rightarrow> f modes w h n) = Some y"
  from GetDisplayMode_while_cases [of n modes w h]
  show "\<exists>k. n \<le> k \<and> k < length modes \<and> mode_matches w h (modes ! k)
         \<and> (\<forall>j. n \<le> j \<and> j < k \<longrightarrow> \<not> mode_matches w h (modes ! j)) \<and> y = int k"
  proof
    assume "\<exists>k. n \<le> k \<and> k < length modes \<and> mode_matches w h (modes ! k)
        \<and> (\<forall>j. n \<le> j \<and> j < k \<longrightarrow> \<not> mode_matches w h (modes ! j))
        \<and> GetDisplayMode_while modes w h n = Inl (int k)"
    then obtain k where k: "n \<le> k \<and> k < length modes \<and> mode_matches w h (modes ! k)
        \<and> (\<forall>j. n \<le> j \<and> j < k \<longrightarrow> \<not> mode_matches w h (modes ! j))"
      and r: "GetDisplayMode_while modes w h n = Inl (int k)"
      by blast
    from eq have "y = int k" unfolding r by simp
    with k show ?thesis by blast
  next
    assume "(\<forall>j. n \<le> j \<and> j < length modes \<longrightarrow> \<not> mode_matches w h (modes ! j))
        \<and> GetDisplayMode_while modes w h n = Inr (max n (length modes))"
    then have r: "GetDisplayMode_while modes w h n = Inr (max n (length modes))" by blast
    from eq have "f modes w h (max n (length modes)) = Some y" unfolding r by simp
    from IH [OF this] obtain k where "max n (length modes) \<le> k" "k < length modes"
      by blast
    then have False by simp
    then show ?thesis ..
  qed
qed

lemma GetDisplayMode_for_found:
  "k < length modes \<Longrightarrow> n \<le> k \<Longrightarrow> mode_matches w h (modes ! k) \<Longrightarrow>
   \<forall>j. n \<le> j \<and> j < k \<longrightarrow> \<not> mode_matches w h (modes ! j) \<Longrightarrow>
     GetDisplayMode_for modes w h n = Some (int k)"
  by (subst GetDisplayMode_for.simps) (simp add: GetDisplayMode_while_found)

text \<open>
  C8. \<open>GetDisplayMode\<close> does not return exactly when no enumerated display mode has the
  requested width and height: the \<open>while\<close> loop runs out of modes and the enclosing
  \<open>for (;;)\<close> restarts it forever. When it returns, it returns the index of the first
  matching mode. It never returns -1, so the \<open>return -1\<close> after the loop is never
  reached.
\<close>

theorem GetDisplayMode_returns_iff_match:
  "(GetDisplayMode modes width' height' = None \<longleftrightarrow>
      (\<forall>m \<in> set modes. \<not> (width' = dmPelsWidth m \<and> height' = dmPelsHeight m)))
   \<and> (\<forall>r. GetDisplayMode modes width' height' = Some r \<longrightarrow>
         (\<exists>k < length modes. r = int k
            \<and> width' = dmPelsWidth (modes ! k) \<and> height' = dmPelsHeight (modes ! k)
            \<and> (\<forall>j < k. \<not> (width' = dmPelsWidth (modes ! j) \<and> height' = dmPelsHeight (modes ! j)))))
   \<and> GetDisplayMode modes width' height' \<noteq> Some (- 1)"
proof -
  have some: "\<exists>k < length modes. r = int k \<and> mode_matches width' height' (modes ! k)
            \<and> (\<forall>j < k. \<not> mode_matches width' height' (modes ! j))"
    if "GetDisplayMode modes width' height' = Some r" for r
  proof -
    from that have "GetDisplayMode_for modes width' height' 0 = Some r"
      by (simp add: GetDisplayMode_def)
    from GetDisplayMode_for_Some [OF this] show ?thesis by blast
  qed
  have none: "GetDisplayMode modes width' height' = None"
    if nm: "\<forall>m \<in> set modes. \<not> mode_matches width' height' m"
  proof (cases "GetDisplayMode modes width' height'")
    case None
    then show ?thesis .
  next
    case (Some r)
    from some [OF this] obtain k where "k < length modes" "mode_matches width' height' (modes ! k)"
      by blast
    with nm have False by (metis nth_mem)
    then show ?thesis ..
  qed
  have ret: "GetDisplayMode modes width' height' \<noteq> None"
    if "\<exists>m \<in> set modes. mode_matches width' height' m"
  proof -
    from that obtain i where "i < length modes \<and> mode_matches width' height' (modes ! i)"
      by (metis in_set_conv_nth)
    then obtain k where k: "k < length modes \<and> mode_matches width' height' (modes ! k)"
      and least: "\<forall>j<k. \<not> (j < length modes \<and> mode_matches width' height' (modes ! j))"
      using exists_least_iff [of "\<lambda>k. k < length modes \<and> mode_matches width' height' (modes ! k)"]
      by blast
    from k least have "\<forall>j. 0 \<le> j \<and> j < k \<longrightarrow> \<not> mode_matches width' height' (modes ! j)"
      by auto
    with k GetDisplayMode_for_found [of k modes 0 width' height']
    show ?thesis by (simp add: GetDisplayMode_def)
  qed
  have neg: "GetDisplayMode modes width' height' \<noteq> Some (- 1)"
  proof
    assume "GetDisplayMode modes width' height' = Some (- 1)"
    from some [OF this] obtain k :: nat where "- 1 = int k" by blast
    then show False by simp
  qed
  from none ret have iff: "GetDisplayMode modes width' height' = None \<longleftrightarrow>
      (\<forall>m \<in> set modes. \<not> mode_matches width' height' m)"
    by blast
  from iff some neg show ?thesis unfolding mode_matches_def by blast
qed

text \<open>
  Neither of the two stub modes is 1024 by 768, so that search does not return; the
  search for 1920 by 1080 returns index 1.
\<close>

theorem GetDisplayMode_returns_iff_match_witness:
  "GetDisplayMode stub_modes 1024 768 = None
   \<and> GetDisplayMode stub_modes 1920 1080 = Some 1"
proof -
  have nm: "\<forall>m \<in> set stub_modes. \<not> (1024 = dmPelsWidth m \<and> 768 = dmPelsHeight m)"
    by (simp add: stub_modes_def)
  with GetDisplayMode_returns_iff_match [of stub_modes 1024 768]
  have none: "GetDisplayMode stub_modes 1024 768 = None" by blast
  have "GetDisplayMode_while stub_modes 1920 1080 0 = Inl 1"
    by (simp add: GetDisplayMode_while_unfold stub_modes_def mode_matches_def)
  then have "GetDisplayMode stub_modes 1920 1080 = Some 1"
    unfolding GetDisplayMode_def by (subst GetDisplayMode_for.simps) simp
  with none show ?thesis by blast
qed

end
